theory Spec2Isabelle
  imports Complex_Main "HOL-Library.Word"
begin

section \<open>JavaScript values used by the component\<close>

text \<open>
  A JavaScript string is a sequence of UTF-16 code units. \<open>js_of\<close> embeds an ASCII
  literal.
\<close>

type_synonym jsstring = "16 word list"

definition js_of :: "string \<Rightarrow> jsstring" where
  "js_of s = map (\<lambda>c. of_nat (of_char c)) s"

text \<open>
  The code units that \<open>String.prototype.trim\<close> strips: the WhiteSpace and
  LineTerminator productions of ECMAScript.
\<close>

definition is_ws :: "16 word \<Rightarrow> bool" where
  "is_ws c \<longleftrightarrow>
     c = 0x0009 \<or> c = 0x000A \<or> c = 0x000B \<or> c = 0x000C \<or> c = 0x000D \<or> c = 0x0020 \<or>
     c = 0x00A0 \<or> c = 0x1680 \<or> (0x2000 \<le> c \<and> c \<le> 0x200A) \<or> c = 0x2028 \<or>
     c = 0x2029 \<or> c = 0x202F \<or> c = 0x205F \<or> c = 0x3000 \<or> c = 0xFEFF"

definition trim :: "jsstring \<Rightarrow> jsstring" where
  "trim s = rev (dropWhile is_ws (rev (dropWhile is_ws s)))"

text \<open>
  The numbers \<open>selectedSuggestion\<close> can hold: integers (exact as doubles far beyond any
  list length) and \<open>NaN\<close>, which \<open>x % 0\<close> produces. JavaScript's \<open>-0\<close> is identified with
  \<open>0\<close>: both index the same array element and are \<open>===\<close> to each other, and the
  component uses the number in no other way.
\<close>

datatype jsnum = Num int | NaN

fun js_add :: "jsnum \<Rightarrow> jsnum \<Rightarrow> jsnum" where
  "js_add (Num a) (Num b) = Num (a + b)"
| "js_add _ _ = NaN"

fun js_sub :: "jsnum \<Rightarrow> jsnum \<Rightarrow> jsnum" where
  "js_sub (Num a) (Num b) = Num (a - b)"
| "js_sub _ _ = NaN"

text \<open>\<open>a % b\<close>: the remainder takes the sign of the dividend; \<open>a % 0\<close> is \<open>NaN\<close>.\<close>

fun js_rem :: "jsnum \<Rightarrow> jsnum \<Rightarrow> jsnum" where
  "js_rem (Num a) (Num b) = (if b = 0 then NaN else Num (sgn a * (\<bar>a\<bar> mod \<bar>b\<bar>)))"
| "js_rem _ _ = NaN"

text \<open>
  \<open>xs[i]\<close>: \<open>undefined\<close> (here \<open>None\<close>) when \<open>i\<close> is negative, beyond the end or
  \<open>NaN\<close>.
\<close>

fun js_index :: "'a list \<Rightarrow> jsnum \<Rightarrow> 'a option" where
  "js_index xs (Num i) = (if 0 \<le> i \<and> i < int (length xs) then Some (xs ! nat i) else None)"
| "js_index xs NaN = None"

text \<open>\<open>a ?? b\<close>, for a value that is \<open>null\<close> or a number.\<close>

definition nullish :: "'a option \<Rightarrow> 'a \<Rightarrow> 'a" where
  "nullish a b = (case a of None \<Rightarrow> b | Some v \<Rightarrow> v)"

text \<open>Template-literal rendering of a non-negative integer such as \<open>response.status\<close>.\<close>

fun decimal :: "nat \<Rightarrow> jsstring" where
  "decimal n = (if n < 10 then [of_nat (48 + n)] else decimal (n div 10) @ [of_nat (48 + n mod 10)])"

declare decimal.simps [simp del]

section \<open>Component state\<close>

text \<open>The \<open>useState\<close> cells of \<open>App\<close>; the cell \<open>text\<close> is the field \<open>text'\<close>.\<close>

record app_state =
  text' :: jsstring
  suggestions :: "jsstring list"
  loading :: bool
  error :: "jsstring option"
  systemPrompt :: jsstring
  latency :: "(real \<times> real) option"
  selectedSuggestion :: "jsnum option"
  networkPingMs :: "real option"

datatype CompletionResponse =
  CompletionResponse (data_suggestions: "jsstring list") (data_latency_ms: real)
    (data_server_processing_time_ms: real)

text \<open>The initial value of the \<open>systemPrompt\<close> cell.\<close>

definition defaultSystemPrompt :: jsstring where
  "defaultSystemPrompt = js_of (''You are an autocomplete assistant. Your task is to suggest ONLY the next few words that would naturally complete the user'' @ [CHR 0x27] @ ''s text. Do not add any additional context, explanations, or new sentences. Return only the continuation of the existing text. Keep suggestions concise and focused on completing the current thought.'')"

definition initial_state :: app_state where
  "initial_state =
     \<lparr>text' = [], suggestions = [], loading = False, error = None,
      systemPrompt = defaultSystemPrompt,
      latency = None, selectedSuggestion = None, networkPingMs = None\<rparr>"

section \<open>Completion requests\<close>

text \<open>
  The JSON object handed to \<open>JSON.stringify\<close>, as its fields in order. A number is
  the decimal literal written in the source.
\<close>

datatype json = JString jsstring | JNumber real

text \<open>The body \<open>fetchSuggestions\<close> posts to \<open>/api/complete\<close> (App.tsx).\<close>

definition request_body :: "jsstring \<Rightarrow> jsstring \<Rightarrow> (string \<times> json) list" where
  "request_body input prompt = [(''text'', JString input), (''system_prompt'', JString prompt)]"

text \<open>
  The message the WebSocket revision of \<open>fetchSuggestions\<close>, reproduced in README.md,
  sends on \<open>ws.onopen\<close>.
\<close>

definition ws_request_body :: "jsstring \<Rightarrow> jsstring \<Rightarrow> (string \<times> json) list" where
  "ws_request_body input prompt =
     [(''text'', JString input), (''system_prompt'', JString prompt),
      (''max_tokens'', JNumber 5), (''num_suggestions'', JNumber 3),
      (''temperature'', JNumber (1 / 10))]"

text \<open>
  What the two awaited promises of \<open>fetchSuggestions\<close> can do: \<open>fetch\<close> rejects, or
  resolves to a response with its \<open>ok\<close> flag and \<open>status\<close>, whose \<open>json()\<close> in turn
  rejects or resolves to a \<open>CompletionResponse\<close>. A thrown value is an \<open>Error\<close> with
  its message, or something else.
\<close>

datatype thrown = ErrorInstance jsstring | OtherValue

datatype json_outcome = JsonResolves CompletionResponse | JsonRejects thrown

datatype fetch_outcome = FetchRejects thrown | FetchResolves bool nat json_outcome

text \<open>A call in flight: the locals its continuation closes over, and what it sent.\<close>

record pending =
  requestStartTime :: real
  body :: "(string \<times> json) list"

text \<open>
  \<open>fetchSuggestions\<close> up to its first \<open>await\<close>. \<open>prompt\<close> is the \<open>systemPrompt\<close> of
  the closure, \<open>now\<close> the reading of \<open>performance.now()\<close>. The second component is the
  network call issued, if any.
\<close>

definition fetchSuggestions_call ::
  "jsstring \<Rightarrow> jsstring \<Rightarrow> real \<Rightarrow> app_state \<Rightarrow> app_state \<times> pending option" where
  "fetchSuggestions_call input prompt now st =
     (if trim input = [] then (st\<lparr>suggestions := []\<rparr>, None)
      else (st\<lparr>loading := True, error := None\<rparr>,
            Some \<lparr>requestStartTime = now, body = request_body input prompt\<rparr>))"

text \<open>The \<open>catch\<close> block followed by \<open>finally\<close>.\<close>

definition on_catch :: "thrown \<Rightarrow> app_state \<Rightarrow> app_state" where
  "on_catch err st =
     st\<lparr>error := Some (case err of ErrorInstance message \<Rightarrow> message
                               | OtherValue \<Rightarrow> js_of ''Failed to fetch suggestions''),
        suggestions := [], loading := False\<rparr>"

text \<open>
  The rest of \<open>fetchSuggestions\<close>, run when the awaited promises settle; \<open>now\<close> is the
  reading taken for \<open>requestEndTime\<close>. Nothing between the two \<open>await\<close>s writes a
  cell, so the continuation is one step. The parsed body is taken to have the declared
  type \<open>CompletionResponse\<close>. No branch looks at which call is being settled.
\<close>

definition fetchSuggestions_settle ::
  "pending \<Rightarrow> fetch_outcome \<Rightarrow> real \<Rightarrow> app_state \<Rightarrow> app_state" where
  "fetchSuggestions_settle p outcome now st =
     (case outcome of
        FetchRejects err \<Rightarrow> on_catch err st
      | FetchResolves ok status j \<Rightarrow>
          if \<not> ok then on_catch (ErrorInstance (js_of ''HTTP error! status: '' @ decimal status)) st
          else (case j of
                  JsonRejects err \<Rightarrow> on_catch err st
                | JsonResolves data \<Rightarrow>
                    st\<lparr>suggestions := data_suggestions data,
                       latency := Some (now - requestStartTime p, data_server_processing_time_ms data),
                       loading := False\<rparr>))"

section \<open>Keyboard and mouse handlers\<close>

text \<open>
  A handler runs to completion on the cells of the latest render, so the \<open>prev\<close> of a
  functional update and the \<open>suggestions\<close> of the closure belong to the same state. The
  arithmetic of the arrow branches is JavaScript's: \<open>prev + 1\<close>, \<open>prev - 1 +
  suggestions.length\<close> and \<open>%\<close> on numbers, with no test of the list's length.
\<close>

definition handleKeyDown :: "string \<Rightarrow> app_state \<Rightarrow> app_state" where
  "handleKeyDown key st =
     (if key = ''Tab'' \<and> length (suggestions st) > 0 then
        (case js_index (suggestions st) (nullish (selectedSuggestion st) (Num 0)) of
           None \<Rightarrow> st
         | Some suggestion \<Rightarrow>
             if suggestion \<noteq> [] then
               st\<lparr>text' := text' st @ suggestion, suggestions := [], selectedSuggestion := None\<rparr>
             else st)
      else if key = ''ArrowDown'' then
        st\<lparr>selectedSuggestion :=
             Some (case selectedSuggestion st of
                     None \<Rightarrow> Num 0
                   | Some prev \<Rightarrow>
                       js_rem (js_add prev (Num 1)) (Num (int (length (suggestions st)))))\<rparr>
      else if key = ''ArrowUp'' then
        st\<lparr>selectedSuggestion :=
             Some (case selectedSuggestion st of
                     None \<Rightarrow> js_sub (Num (int (length (suggestions st)))) (Num 1)
                   | Some prev \<Rightarrow>
                       js_rem (js_add (js_sub prev (Num 1)) (Num (int (length (suggestions st)))))
                         (Num (int (length (suggestions st)))))\<rparr>
      else st)"

text \<open>Whether \<open>handleKeyDown\<close> calls \<open>e.preventDefault()\<close>.\<close>

definition preventsDefault :: "string \<Rightarrow> app_state \<Rightarrow> bool" where
  "preventsDefault key st \<longleftrightarrow>
     key = ''Tab'' \<and> length (suggestions st) > 0 \<or> key = ''ArrowDown'' \<or> key = ''ArrowUp''"

definition handleTextChange :: "jsstring \<Rightarrow> app_state \<Rightarrow> app_state" where
  "handleTextChange v st = st\<lparr>text' := v\<rparr>"

definition handleSystemPromptChange :: "jsstring \<Rightarrow> app_state \<Rightarrow> app_state" where
  "handleSystemPromptChange v st = st\<lparr>systemPrompt := v\<rparr>"

text \<open>The \<open>onClick\<close> of the rendered item showing \<open>suggestion\<close>.\<close>

definition onClick :: "jsstring \<Rightarrow> app_state \<Rightarrow> app_state" where
  "onClick suggestion st =
     st\<lparr>text' := text' st @ suggestion, suggestions := [], selectedSuggestion := None\<rparr>"

section \<open>The event loop\<close>

text \<open>
  Everything outside the \<open>useState\<close> cells that the component's callbacks depend on:
  the timeout registered by the debounce effect (when it is due, and the \<open>text\<close> and
  \<open>systemPrompt\<close> its closure captured), the calls in flight in issue order, the log of
  request bodies sent, the \<open>start\<close> of the ping while it is in flight, and the last
  reading of the monotonic clock.
\<close>

record world =
  app :: app_state
  timer :: "(real \<times> jsstring \<times> jsstring) option"
  inflight :: "pending list"
  sent :: "(string \<times> json) list list"
  pingStart :: "real option"
  clock :: real

text \<open>
  A state update re-renders. The effect with dependencies \<open>[text, systemPrompt]\<close> runs
  again only when one of them changed: its cleanup clears the registered timeout and
  the effect registers a new one, 100 ms ahead.
\<close>

definition render :: "real \<Rightarrow> app_state \<Rightarrow> world \<Rightarrow> world" where
  "render now st w =
     (if text' st = text' (app w) \<and> systemPrompt st = systemPrompt (app w) then w\<lparr>app := st\<rparr>
      else w\<lparr>app := st, timer := Some (now + 100, text' st, systemPrompt st)\<rparr>)"

text \<open>
  Mounting at clock reading \<open>t0\<close>: both effects run once, the first registering the
  timeout, the second dispatching the ping, whose \<open>start\<close> is \<open>t0\<close>.
\<close>

definition mount :: "real \<Rightarrow> world" where
  "mount t0 =
     \<lparr>app = initial_state,
      timer = Some (t0 + 100, text' initial_state, systemPrompt initial_state),
      inflight = [], sent = [], pingStart = Some t0, clock = t0\<rparr>"

text \<open>
  The events the loop can deliver. \<open>Settle i\<close> settles the \<open>i\<close>-th call in flight,
  oldest first; \<open>PingSettle ok\<close> resolves (\<open>ok\<close>) or rejects the ping's \<open>fetch\<close>.
\<close>

datatype event =
    TextChange jsstring
  | SystemPromptChange jsstring
  | KeyDown string
  | Click nat
  | Timeout
  | Settle nat fetch_outcome
  | PingSettle bool

text \<open>
  One callback, run to completion at clock reading \<open>now\<close>; \<open>None\<close> when the event
  cannot happen (no timeout due, no such call in flight, no such item rendered).
\<close>

fun fire :: "event \<Rightarrow> real \<Rightarrow> world \<Rightarrow> world option" where
  "fire (TextChange v) now w = Some (render now (handleTextChange v (app w)) w)"
| "fire (SystemPromptChange v) now w = Some (render now (handleSystemPromptChange v (app w)) w)"
| "fire (KeyDown key) now w = Some (render now (handleKeyDown key (app w)) w)"
| "fire (Click j) now w =
     (if j < length (suggestions (app w))
      then Some (render now (onClick (suggestions (app w) ! j) (app w)) w)
      else None)"
| "fire Timeout now w =
     (case timer w of
        None \<Rightarrow> None
      | Some (due, input, prompt) \<Rightarrow>
          if now < due then None
          else (case fetchSuggestions_call input prompt now (app w) of
                  (st, None) \<Rightarrow> Some (render now st (w\<lparr>timer := None\<rparr>))
                | (st, Some p) \<Rightarrow>
                    Some (render now st
                            (w\<lparr>timer := None, inflight := inflight w @ [p],
                               sent := sent w @ [body p]\<rparr>))))"
| "fire (Settle i outcome) now w =
     (if i < length (inflight w)
      then Some (render now (fetchSuggestions_settle (inflight w ! i) outcome now (app w))
                   (w\<lparr>inflight := take i (inflight w) @ drop (Suc i) (inflight w)\<rparr>))
      else None)"
| "fire (PingSettle ok) now w =
     (case pingStart w of
        None \<Rightarrow> None
      | Some start \<Rightarrow>
          Some (render now ((app w)\<lparr>networkPingMs := (if ok then Some (now - start) else None)\<rparr>)
                  (w\<lparr>pingStart := None\<rparr>)))"

text \<open>The clock is monotonic: an event carries a reading no earlier than the last.\<close>

definition step :: "real \<times> event \<Rightarrow> world \<Rightarrow> world option" where
  "step te w = (if fst te < clock w then None else fire (snd te) (fst te) (w\<lparr>clock := fst te\<rparr>))"

fun run :: "(real \<times> event) list \<Rightarrow> world \<Rightarrow> world option" where
  "run [] w = Some w"
| "run (te # tes) w = (case step te w of None \<Rightarrow> None | Some w' \<Rightarrow> run tes w')"

section \<open>Vocabulary for the properties\<close>

text \<open>The response a settled call delivers to the success path, if it gets there.\<close>

fun completion :: "fetch_outcome \<Rightarrow> CompletionResponse option" where
  "completion (FetchResolves ok status (JsonResolves data)) = (if ok then Some data else None)"
| "completion _ = None"



text \<open>The registered timeout's closure holds the text and prompt now on screen.\<close>

definition timer_ok :: "world \<Rightarrow> bool" where
  "timer_ok w =
     (case timer w of
        None \<Rightarrow> True
      | Some (due, input, prompt) \<Rightarrow> input = text' (app w) \<and> prompt = systemPrompt (app w))"

section \<open>Basic facts\<close>

lemma dropWhile_all: "(\<forall>x\<in>set (dropWhile P xs). P x) \<longleftrightarrow> (\<forall>x\<in>set xs. P x)"
proof
  assume all: "\<forall>x\<in>set (dropWhile P xs). P x"
  have "dropWhile P xs = []"
  proof (rule ccontr)
    assume ne: "dropWhile P xs \<noteq> []"
    then have "\<not> P (hd (dropWhile P xs))" by (rule hd_dropWhile)
    moreover from ne have "hd (dropWhile P xs) \<in> set (dropWhile P xs)" by simp
    ultimately show False using all by blast
  qed
  then show "\<forall>x\<in>set xs. P x" by (simp add: dropWhile_eq_Nil_conv)
next
  assume "\<forall>x\<in>set xs. P x"
  then show "\<forall>x\<in>set (dropWhile P xs). P x" by (blast dest: set_dropWhileD)
qed

lemma trim_blank: "trim s = [] \<longleftrightarrow> (\<forall>c\<in>set s. is_ws c)"
  by (simp add: trim_def dropWhile_eq_Nil_conv dropWhile_all)

lemma render_frame [simp]:
  "app (render now st w) = st" "inflight (render now st w) = inflight w"
  "sent (render now st w) = sent w" "pingStart (render now st w) = pingStart w"
  "clock (render now st w) = clock w"
  by (simp_all add: render_def)

lemma render_same:
  "text' st = text' (app w) \<Longrightarrow> systemPrompt st = systemPrompt (app w) \<Longrightarrow>
   timer (render now st w) = timer w"
  by (simp add: render_def)

lemma timer_ok_render: "timer_ok w \<Longrightarrow> timer_ok (render now st w)"
  by (auto simp: timer_ok_def render_def split: option.splits)

lemma settle_deps [simp]:
  "text' (fetchSuggestions_settle p outcome now st) = text' st"
  "systemPrompt (fetchSuggestions_settle p outcome now st) = systemPrompt st"
  "networkPingMs (fetchSuggestions_settle p outcome now st) = networkPingMs st"
  by (simp_all add: fetchSuggestions_settle_def on_catch_def
      split: fetch_outcome.splits json_outcome.splits)

lemma call_deps [simp]:
  "text' (fst (fetchSuggestions_call input prompt now st)) = text' st"
  "systemPrompt (fst (fetchSuggestions_call input prompt now st)) = systemPrompt st"
  "networkPingMs (fst (fetchSuggestions_call input prompt now st)) = networkPingMs st"
  by (simp_all add: fetchSuggestions_call_def)

lemma key_frame [simp]:
  "systemPrompt (handleKeyDown key st) = systemPrompt st"
  "networkPingMs (handleKeyDown key st) = networkPingMs st"
  by (simp_all add: handleKeyDown_def split: option.splits)

lemma timer_ok_fire: "timer_ok w \<Longrightarrow> fire ev now w = Some w' \<Longrightarrow> timer_ok w'"
proof (cases ev)
  case Timeout
  assume "timer_ok w" "fire ev now w = Some w'"
  with Timeout show ?thesis
    by (auto simp: timer_ok_def render_def fetchSuggestions_call_def
        split: option.splits if_splits prod.splits)
next
  case (Settle i outcome)
  assume "timer_ok w" "fire ev now w = Some w'"
  with Settle show ?thesis
    by (auto simp: timer_ok_def render_def split: option.splits if_splits)
qed (auto simp: timer_ok_def render_def split: option.splits if_splits)

lemma timer_ok_step: "timer_ok w \<Longrightarrow> step te w = Some w' \<Longrightarrow> timer_ok w'"
proof -
  assume ok: "timer_ok w" and st: "step te w = Some w'"
  from ok have "timer_ok (w\<lparr>clock := fst te\<rparr>)"
    by (auto simp: timer_ok_def split: option.splits)
  moreover from st have "fire (snd te) (fst te) (w\<lparr>clock := fst te\<rparr>) = Some w'"
    by (simp add: step_def split: if_splits)
  ultimately show ?thesis by (rule timer_ok_fire)
qed

lemma timer_ok_run: "timer_ok w \<Longrightarrow> run tes w = Some w' \<Longrightarrow> timer_ok w'"
  by (induction tes arbitrary: w) (auto split: option.splits dest: timer_ok_step)

lemma timer_ok_mount: "timer_ok (mount t0)"
  by (simp add: timer_ok_def mount_def)

lemmas eval_defs = step_def render_def mount_def initial_state_def handleTextChange_def
  handleKeyDown_def fetchSuggestions_call_def fetchSuggestions_settle_def on_catch_def
  request_body_def js_of_def trim_def is_ws_def onClick_def handleSystemPromptChange_def
  nullish_def

lemma run_reachable_timer:
  assumes "run tes (mount t0) = Some w" and "timer w = Some (due, input, prompt)"
  shows "input = text' (app w) \<and> prompt = systemPrompt (app w)"
proof -
  have "timer_ok w" using timer_ok_mount assms(1) by (rule timer_ok_run)
  with assms(2) show ?thesis by (simp add: timer_ok_def)
qed

lemma step_Timeout:
  assumes "step (now, Timeout) w = Some w'"
  obtains due input prompt where "timer w = Some (due, input, prompt)" "due \<le> now" "clock w \<le> now"
    "w' = (case fetchSuggestions_call input prompt now (app w) of
             (st, None) \<Rightarrow> (w\<lparr>clock := now, timer := None, app := st\<rparr>)
           | (st, Some p) \<Rightarrow> (w\<lparr>clock := now, timer := None, inflight := inflight w @ [p],
                               sent := sent w @ [body p], app := st\<rparr>))"
  using assms
  by (auto simp: step_def render_def fetchSuggestions_call_def split: if_splits option.splits prod.splits)

section \<open>The claims\<close>

text \<open>
  C6. Whenever the debounce timeout fires while the text on screen is empty or
  consists of whitespace only, the suggestion list becomes empty and no network call is
  issued: the log of requests sent and the calls in flight are as before.
\<close>

theorem blank_input_no_network_call:
  assumes "run tes (mount t0) = Some w"
    and "list_all is_ws (text' (app w))"
    and "step (now, Timeout) w = Some w'"
  shows "suggestions (app w') = [] \<and> sent w' = sent w \<and> inflight w' = inflight w"
proof -
  from assms(3) obtain due input prompt where
    t: "timer w = Some (due, input, prompt)" and
    w': "w' = (case fetchSuggestions_call input prompt now (app w) of
             (st, None) \<Rightarrow> (w\<lparr>clock := now, timer := None, app := st\<rparr>)
           | (st, Some p) \<Rightarrow> (w\<lparr>clock := now, timer := None, inflight := inflight w @ [p],
                               sent := sent w @ [body p], app := st\<rparr>))"
    by (rule step_Timeout)
  from assms(1) t have "input = text' (app w)" by (simp add: run_reachable_timer)
  with assms(2) have "trim input = []" by (simp add: trim_blank list_all_iff)
  with w' show ?thesis by (simp add: fetchSuggestions_call_def)
qed

theorem blank_input_no_network_call_witness:
  "\<exists>w w'. run [(10, TextChange (js_of ''  ''))] (mount 0) = Some w \<and>
      list_all is_ws (text' (app w)) \<and> step (110, Timeout) w = Some w' \<and>
      suggestions (app w') = [] \<and> sent w' = sent w \<and> inflight w' = inflight w"
proof -
  obtain w where w: "run [(10, TextChange (js_of ''  ''))] (mount 0) = Some w"
    by (simp add: eval_defs)
  have blank: "list_all is_ws (text' (app w))"
    using w by (auto simp: eval_defs)
  obtain w' where w': "step (110, Timeout) w = Some w'"
    using w by (auto simp: eval_defs)
  from blank_input_no_network_call [OF w blank w'] w blank w' show ?thesis by blast
qed

text \<open>
  C10. When the suggestion list is non-empty but \<open>selectedSuggestion ?? 0\<close> is \<open>NaN\<close>,
  negative or beyond the end of the list, or the entry found there is the empty string,
  Tab changes nothing: the lookup yields no entry and the handler leaves every cell,
  in particular the text, the suggestion list and the selection, as it was.
\<close>

theorem tab_guarded_lookup:
  assumes "suggestions st \<noteq> []"
    and "nullish (selectedSuggestion st) (Num 0) = NaN \<or>
         (\<exists>i. nullish (selectedSuggestion st) (Num 0) = Num i \<and>
              (i < 0 \<or> int (length (suggestions st)) \<le> i \<or> suggestions st ! nat i = []))"
  shows "handleKeyDown ''Tab'' st = st"
  using assms by (auto simp: handleKeyDown_def split: option.splits if_splits)

text \<open>
  The three cases at concrete states: an empty first entry with nothing selected, a
  selection beyond the end, and a \<open>NaN\<close> selection.
\<close>

theorem tab_guarded_lookup_witness:
  "handleKeyDown ''Tab'' (initial_state\<lparr>text' := js_of ''hello '', suggestions := [[], js_of ''world'']\<rparr>)
     = initial_state\<lparr>text' := js_of ''hello '', suggestions := [[], js_of ''world'']\<rparr> \<and>
   handleKeyDown ''Tab'' (initial_state\<lparr>suggestions := [js_of ''world''], selectedSuggestion := Some (Num 2)\<rparr>)
     = initial_state\<lparr>suggestions := [js_of ''world''], selectedSuggestion := Some (Num 2)\<rparr> \<and>
   handleKeyDown ''Tab'' (initial_state\<lparr>suggestions := [js_of ''world''], selectedSuggestion := Some NaN\<rparr>)
     = initial_state\<lparr>suggestions := [js_of ''world''], selectedSuggestion := Some NaN\<rparr>"
  using tab_guarded_lookup [of "initial_state\<lparr>text' := js_of ''hello '', suggestions := [[], js_of ''world'']\<rparr>"]
    tab_guarded_lookup [of "initial_state\<lparr>suggestions := [js_of ''world''], selectedSuggestion := Some (Num 2)\<rparr>"]
    tab_guarded_lookup [of "initial_state\<lparr>suggestions := [js_of ''world''], selectedSuggestion := Some NaN\<rparr>"]
  by (simp add: nullish_def initial_state_def js_of_def)

text \<open>
  C5 as stated fails: with the text \<open>hello \<close>, the list \<open>["", "world"]\<close> and nothing
  selected, Tab accepts nothing and the list is not cleared.
\<close>

theorem tab_accept_counterexample:
  "suggestions (handleKeyDown ''Tab''
      (initial_state\<lparr>text' := js_of ''hello '', suggestions := [[], js_of ''world'']\<rparr>)) \<noteq> []"
  by (simp add: handleKeyDown_def nullish_def initial_state_def js_of_def)

text \<open>
  C5, amended. When the index \<open>selectedSuggestion ?? 0\<close> lies within the suggestion
  list and the entry there is not the empty string, Tab appends that entry to the end of
  the text, clears the suggestion list and resets the selection to \<open>null\<close>. Tab while
  the suggestion list is empty changes nothing.
\<close>

theorem tab_accept:
  "(nullish (selectedSuggestion st) (Num 0) = Num i \<and> 0 \<le> i \<and> i < int (length (suggestions st)) \<and>
      suggestions st ! nat i \<noteq> [] \<longrightarrow>
    handleKeyDown ''Tab'' st =
      st\<lparr>text' := text' st @ suggestions st ! nat i, suggestions := [], selectedSuggestion := None\<rparr>) \<and>
   (suggestions st = [] \<longrightarrow> handleKeyDown ''Tab'' st = st)"
  by (auto simp: handleKeyDown_def)

theorem tab_accept_witness:
  "handleKeyDown ''Tab'' (initial_state\<lparr>text' := js_of ''hello '', suggestions := [js_of ''world'']\<rparr>)
     = initial_state\<lparr>text' := js_of ''hello world''\<rparr> \<and>
   handleKeyDown ''Tab''
      (initial_state\<lparr>text' := js_of ''a'', suggestions := [js_of ''b'', js_of ''c''],
         selectedSuggestion := Some (Num 1)\<rparr>)
     = initial_state\<lparr>text' := js_of ''ac''\<rparr> \<and>
   handleKeyDown ''Tab'' initial_state = initial_state"
  using tab_accept [of "initial_state\<lparr>text' := js_of ''hello '', suggestions := [js_of ''world'']\<rparr>" 0]
    tab_accept [of "initial_state\<lparr>text' := js_of ''a'', suggestions := [js_of ''b'', js_of ''c''],
         selectedSuggestion := Some (Num 1)\<rparr>" 1]
    tab_accept [of initial_state 0]
  by (simp add: nullish_def initial_state_def js_of_def)

text \<open>
  Arrow keys over a non-empty list of length \<open>n\<close>: ArrowDown takes \<open>null\<close> to 0 and
  \<open>i\<close> to \<open>(i + 1) mod n\<close>; ArrowUp takes \<open>null\<close> to \<open>n - 1\<close> and \<open>i\<close> to
  \<open>(i - 1 + n) mod n\<close>.
\<close>

lemma arrow_down_nonempty:
  assumes "suggestions st \<noteq> []"
  shows "selectedSuggestion st = None \<Longrightarrow>
           selectedSuggestion (handleKeyDown ''ArrowDown'' st) = Some (Num 0)"
    and "selectedSuggestion st = Some (Num i) \<Longrightarrow> 0 \<le> i \<Longrightarrow>
           selectedSuggestion (handleKeyDown ''ArrowDown'' st)
             = Some (Num ((i + 1) mod int (length (suggestions st))))"
  using assms by (simp_all add: handleKeyDown_def)

lemma arrow_up_nonempty:
  assumes "suggestions st \<noteq> []"
  shows "selectedSuggestion st = None \<Longrightarrow>
           selectedSuggestion (handleKeyDown ''ArrowUp'' st)
             = Some (Num (int (length (suggestions st)) - 1))"
    and "selectedSuggestion st = Some (Num i) \<Longrightarrow> 0 \<le> i \<Longrightarrow>
           selectedSuggestion (handleKeyDown ''ArrowUp'' st)
             = Some (Num ((i - 1 + int (length (suggestions st))) mod int (length (suggestions st))))"
proof -
  let ?n = "int (length (suggestions st))"
  from assms have n: "0 < ?n" by simp
  {
    assume "selectedSuggestion st = None"
    then show "selectedSuggestion (handleKeyDown ''ArrowUp'' st) = Some (Num (?n - 1))"
      by (simp add: handleKeyDown_def)
  }
  {
    assume sel: "selectedSuggestion st = Some (Num i)" and i: "0 \<le> i"
    from n i have "0 \<le> i - 1 + ?n" by linarith
    then have "sgn (i - 1 + ?n) * (\<bar>i - 1 + ?n\<bar> mod \<bar>?n\<bar>) = (i - 1 + ?n) mod ?n"
      using n by (cases "i - 1 + ?n = 0") simp_all
    with sel n show "selectedSuggestion (handleKeyDown ''ArrowUp'' st) = Some (Num ((i - 1 + ?n) mod ?n))"
      by (simp add: handleKeyDown_def)
  }
qed

lemma arrow_keys_three_suggestions:
  "selectedSuggestion (handleKeyDown ''ArrowDown'' (initial_state\<lparr>suggestions := [a, b, c]\<rparr>))
     = Some (Num 0)"
  "selectedSuggestion (handleKeyDown ''ArrowDown''
      (handleKeyDown ''ArrowDown'' (initial_state\<lparr>suggestions := [a, b, c]\<rparr>))) = Some (Num 1)"
  "selectedSuggestion (handleKeyDown ''ArrowUp''
      (initial_state\<lparr>suggestions := [a, b, c], selectedSuggestion := Some (Num 0)\<rparr>)) = Some (Num 2)"
  by (simp_all add: handleKeyDown_def initial_state_def)

text \<open>
  C4 claims that both arrow keys are no-ops on an empty suggestion list. The arrow
  branches of \<open>handleKeyDown\<close> lack the \<open>suggestions.length > 0\<close> test of the Tab branch:
  in the initial state, whose list is empty, ArrowDown selects 0, a second ArrowDown
  computes \<open>1 % 0\<close> and leaves \<open>NaN\<close>, and ArrowUp selects \<open>-1\<close>.
\<close>

theorem arrow_keys_on_empty_list:
  "suggestions initial_state = [] \<and>
   selectedSuggestion initial_state = None \<and>
   selectedSuggestion (handleKeyDown ''ArrowDown'' initial_state) = Some (Num 0) \<and>
   selectedSuggestion (handleKeyDown ''ArrowDown'' (handleKeyDown ''ArrowDown'' initial_state)) = Some NaN \<and>
   selectedSuggestion (handleKeyDown ''ArrowUp'' initial_state) = Some (Num (- 1))"
  by (simp add: handleKeyDown_def initial_state_def)

text \<open>
  C2 claims that the selection is always \<open>null\<close> or an index into the suggestion list,
  and is reset whenever the list is replaced. \<open>fetchSuggestions\<close> replaces the list
  without the \<open>setSelectedSuggestion(null)\<close> that the Tab and click handlers issue: after
  three suggestions arrive, ArrowUp selects index 2; the user types on and a single
  suggestion arrives; the selection is still 2, outside the new list.
\<close>

theorem selection_kept_on_replacement:
  "map_option (suggestions \<circ> app)
     (run [(10, TextChange (js_of ''a'')), (110, Timeout),
           (200, Settle 0 (FetchResolves True 200
                   (JsonResolves (CompletionResponse [js_of ''x'', js_of ''y'', js_of ''z''] 0 5)))),
           (210, KeyDown ''ArrowUp''),
           (300, TextChange (js_of ''ab'')), (400, Timeout),
           (500, Settle 0 (FetchResolves True 200
                   (JsonResolves (CompletionResponse [js_of ''w''] 0 5))))]
        (mount 0)) = Some [js_of ''w''] \<and>
   map_option (selectedSuggestion \<circ> app)
     (run [(10, TextChange (js_of ''a'')), (110, Timeout),
           (200, Settle 0 (FetchResolves True 200
                   (JsonResolves (CompletionResponse [js_of ''x'', js_of ''y'', js_of ''z''] 0 5)))),
           (210, KeyDown ''ArrowUp''),
           (300, TextChange (js_of ''ab'')), (400, Timeout),
           (500, Settle 0 (FetchResolves True 200
                   (JsonResolves (CompletionResponse [js_of ''w''] 0 5))))]
        (mount 0)) = Some (Some (Num 2))"
  by (simp add: eval_defs)

text \<open>
  C1 as stated fails: the component mints no request token. Two calls are in flight,
  for \<open>a\<close> and then for \<open>ab\<close>; the later one is answered first, and when the answer to
  the earlier one arrives it replaces the suggestions on screen.
\<close>

theorem stale_response_applied:
  "map_option (suggestions \<circ> app)
     (run [(10, TextChange (js_of ''a'')), (110, Timeout),
           (120, TextChange (js_of ''ab'')), (220, Timeout),
           (300, Settle 1 (FetchResolves True 200
                   (JsonResolves (CompletionResponse [js_of ''new''] 0 5)))),
           (400, Settle 0 (FetchResolves True 200
                   (JsonResolves (CompletionResponse [js_of ''old''] 0 5))))]
        (mount 0)) = Some [js_of ''old'']"
  by (simp add: eval_defs)

text \<open>
  C1, amended. The answer to any call in flight, whether or not a later call has been
  issued since, is applied when it arrives: a success replaces the suggestions by those
  of the response, leaves the error as it is and sets loading to false; a failure
  clears the suggestions, sets the error and sets loading to false. The state on screen
  is therefore that of the last answer to arrive.
\<close>

theorem response_applied_on_arrival:
  assumes "i < length (inflight w)" and "clock w \<le> now"
  shows "\<exists>w'. step (now, Settle i outcome) w = Some w' \<and> \<not> loading (app w') \<and>
     (case completion outcome of
        Some data \<Rightarrow> suggestions (app w') = data_suggestions data \<and> error (app w') = error (app w)
      | None \<Rightarrow> suggestions (app w') = [] \<and> error (app w') \<noteq> None)"
  using assms
  by (cases outcome rule: completion.cases)
     (auto simp: step_def fetchSuggestions_settle_def on_catch_def split: json_outcome.splits)

text \<open>With two calls in flight, the answer to the older one is applied.\<close>

theorem response_applied_on_arrival_witness:
  "\<exists>w w'. run [(10, TextChange (js_of ''a'')), (110, Timeout),
             (120, TextChange (js_of ''ab'')), (220, Timeout)] (mount 0) = Some w \<and>
      map body (inflight w) = [request_body (js_of ''a'') (systemPrompt initial_state),
                               request_body (js_of ''ab'') (systemPrompt initial_state)] \<and>
      step (300, Settle 0 (FetchResolves True 200
                   (JsonResolves (CompletionResponse [js_of ''old''] 0 5)))) w = Some w' \<and>
      suggestions (app w') = [js_of ''old''] \<and> \<not> loading (app w')"
proof -
  obtain w where w: "run [(10, TextChange (js_of ''a'')), (110, Timeout),
             (120, TextChange (js_of ''ab'')), (220, Timeout)] (mount 0) = Some w"
    by (simp add: eval_defs)
  have b: "map body (inflight w) = [request_body (js_of ''a'') (systemPrompt initial_state),
                               request_body (js_of ''ab'') (systemPrompt initial_state)]"
    using w by (auto simp: eval_defs)
  then have "length (map body (inflight w)) = 2" by simp
  then have i: "0 < length (inflight w)" by simp
  have c: "clock w \<le> 300" using w by (auto simp: eval_defs)
  from response_applied_on_arrival [OF i c, of "FetchResolves True 200
                   (JsonResolves (CompletionResponse [js_of ''old''] 0 5))"] w b
  show ?thesis by auto
qed

lemma completion_None_settle:
  assumes "completion outcome = None"
  shows "\<exists>m. fetchSuggestions_settle p outcome now st = st\<lparr>error := Some m, suggestions := [], loading := False\<rparr>"
  using assms
  by (cases outcome rule: completion.cases)
     (auto simp: fetchSuggestions_settle_def on_catch_def split: if_splits)

lemma completion_Some_settle:
  "fetchSuggestions_settle p (FetchResolves True status (JsonResolves data)) now st =
     st\<lparr>suggestions := data_suggestions data,
        latency := Some (now - requestStartTime p, data_server_processing_time_ms data),
        loading := False\<rparr>"
  by (simp add: fetchSuggestions_settle_def)

text \<open>
  C7. When a completion request fails (its \<open>fetch\<close> rejects, the response is not
  \<open>ok\<close>, or \<open>json()\<close> rejects), the text is left unchanged, the error is set, the
  suggestion list is cleared and loading is set to false. A debounce cycle that follows
  and succeeds (an edit to a text that is not blank, the timeout 100 ms later, and the
  successful answer to the call it issues) leaves the error cleared.
\<close>

theorem failed_request_then_successful_cycle:
  assumes "completion outcome = None" and "i < length (inflight w)" and "clock w \<le> t0"
    and "trim v \<noteq> []" and "v \<noteq> text' (app w)"
    and "t0 \<le> t1" and "t1 + 100 \<le> t2" and "t2 \<le> t3"
  shows "\<exists>w1 w4. step (t0, Settle i outcome) w = Some w1 \<and>
      text' (app w1) = text' (app w) \<and> error (app w1) \<noteq> None \<and>
      suggestions (app w1) = [] \<and> \<not> loading (app w1) \<and>
      run [(t1, TextChange v), (t2, Timeout),
           (t3, Settle (length (inflight w1)) (FetchResolves True status (JsonResolves data)))] w1
        = Some w4 \<and>
      error (app w4) = None"
proof -
  from assms(1) obtain m where
    m: "fetchSuggestions_settle (inflight w ! i) outcome t0 (app w)
          = (app w)\<lparr>error := Some m, suggestions := [], loading := False\<rparr>"
    using completion_None_settle by blast
  define w1 where "w1 = render t0 (fetchSuggestions_settle (inflight w ! i) outcome t0 (app w))
       (w\<lparr>clock := t0, inflight := take i (inflight w) @ drop (Suc i) (inflight w)\<rparr>)"
  have s1: "step (t0, Settle i outcome) w = Some w1"
    using assms(2,3) by (simp add: step_def w1_def)
  have a1: "app w1 = (app w)\<lparr>error := Some m, suggestions := [], loading := False\<rparr>"
    and c1: "clock w1 = t0"
    by (simp_all add: w1_def m)
  define w2 where "w2 = render t1 (handleTextChange v (app w1)) (w1\<lparr>clock := t1\<rparr>)"
  have s2: "step (t1, TextChange v) w1 = Some w2"
    using assms(6) c1 by (simp add: step_def w2_def)
  have t2: "timer w2 = Some (t1 + 100, v, systemPrompt (app w1))"
    and a2: "app w2 = (app w1)\<lparr>text' := v\<rparr>" and c2: "clock w2 = t1"
    and i2: "inflight w2 = inflight w1"
    using assms(5) a1 by (simp_all add: w2_def render_def handleTextChange_def)
  define p where "p = \<lparr>requestStartTime = t2, body = request_body v (systemPrompt (app w1))\<rparr>"
  define w3 where "w3 = w2\<lparr>clock := t2, timer := None, inflight := inflight w2 @ [p],
       sent := sent w2 @ [body p], app := (app w2)\<lparr>loading := True, error := None\<rparr>\<rparr>"
  have s3: "step (t2, Timeout) w2 = Some w3"
    using assms(4,6,7) t2 c2
    by (simp add: step_def fetchSuggestions_call_def render_def w3_def p_def)
  have a3: "error (app w3) = None" and c3: "clock w3 = t2"
    and i3: "inflight w3 = inflight w1 @ [p]"
    by (simp_all add: w3_def i2)
  define w4 where "w4 = render t3 (fetchSuggestions_settle (inflight w3 ! length (inflight w1))
        (FetchResolves True status (JsonResolves data)) t3 (app w3))
       (w3\<lparr>clock := t3, inflight := take (length (inflight w1)) (inflight w3)
                 @ drop (Suc (length (inflight w1))) (inflight w3)\<rparr>)"
  have s4: "step (t3, Settle (length (inflight w1)) (FetchResolves True status (JsonResolves data))) w3
      = Some w4"
    using assms(8) c3 i3 by (simp add: step_def w4_def)
  have a4: "error (app w4) = None"
    by (simp add: w4_def completion_Some_settle a3)
  from s1 a1 s2 s3 s4 a4 show ?thesis by simp
qed


theorem failed_request_then_successful_cycle_witness:
  "\<exists>w w1 w4. run [(10, TextChange (js_of ''a'')), (110, Timeout)] (mount 0) = Some w \<and>
      step (200, Settle 0 (FetchRejects (ErrorInstance (js_of ''Failed to fetch'')))) w = Some w1 \<and>
      text' (app w1) = text' (app w) \<and> error (app w1) \<noteq> None \<and>
      suggestions (app w1) = [] \<and> \<not> loading (app w1) \<and>
      run [(300, TextChange (js_of ''ab'')), (400, Timeout),
           (500, Settle (length (inflight w1))
              (FetchResolves True 200 (JsonResolves (CompletionResponse [js_of ''c''] 0 5))))] w1
        = Some w4 \<and>
      error (app w4) = None"
proof -
  obtain w where w: "run [(10, TextChange (js_of ''a'')), (110, Timeout)] (mount 0) = Some w"
    by (simp add: eval_defs)
  have h1: "completion (FetchRejects (ErrorInstance (js_of ''Failed to fetch''))) = None"
    by simp
  have h2: "0 < length (inflight w)" and h3: "clock w \<le> 200"
    and h5: "js_of ''ab'' \<noteq> text' (app w)"
    using w by (auto simp: eval_defs)
  have h4: "trim (js_of ''ab'') \<noteq> []"
    by (simp add: trim_def js_of_def is_ws_def)
  have h6: "(200::real) \<le> 300" and h7: "(300::real) + 100 \<le> 400" and h8: "(400::real) \<le> 500"
    by simp_all
  from failed_request_then_successful_cycle [OF h1 h2 h3 h4 h5 h6 h7 h8, of 200 "CompletionResponse [js_of ''c''] 0 5"] w
  show ?thesis by blast
qed

text \<open>
  No callback other than the ping's own touches the ping's \<open>start\<close> or
  \<open>networkPingMs\<close>, and the ping settles only once.
\<close>

lemma handler_frame [simp]:
  "networkPingMs (handleTextChange v st) = networkPingMs st"
  "networkPingMs (handleSystemPromptChange v st) = networkPingMs st"
  "networkPingMs (onClick s st) = networkPingMs st"
  by (simp_all add: handleTextChange_def handleSystemPromptChange_def onClick_def)










text \<open>
  C3 as stated fails for App.tsx: the body it posts has the two fields \<open>text\<close> and
  \<open>system_prompt\<close> and no generation parameter.
\<close>

theorem request_without_generation_parameters:
  "map_option (map (map fst) \<circ> sent)
     (run [(10, TextChange (js_of ''a'')), (110, Timeout)] (mount 0))
     = Some [[''text'', ''system_prompt'']]"
  by (simp add: eval_defs)

text \<open>
  C3, amended. Every completion request App.tsx sends consists of exactly the text on
  screen and the system prompt on screen when the debounce timeout fires. The fixed
  parameters \<open>max_tokens = 5\<close>, \<open>num_suggestions = 3\<close> and \<open>temperature = 0.1\<close> are
  added to these two fields only by the WebSocket revision listed in README.md.
\<close>

theorem request_built_from_current_text:
  assumes "run tes (mount t0) = Some w"
    and "step (now, Timeout) w = Some w'"
    and "trim (text' (app w)) \<noteq> []"
  shows "sent w' = sent w @ [[(''text'', JString (text' (app w))),
                              (''system_prompt'', JString (systemPrompt (app w)))]] \<and>
         ws_request_body (text' (app w)) (systemPrompt (app w)) =
           [(''text'', JString (text' (app w))), (''system_prompt'', JString (systemPrompt (app w))),
            (''max_tokens'', JNumber 5), (''num_suggestions'', JNumber 3),
            (''temperature'', JNumber (1 / 10))]"
proof -
  from assms(2) obtain due input prompt where
    t: "timer w = Some (due, input, prompt)" and
    w': "w' = (case fetchSuggestions_call input prompt now (app w) of
             (st, None) \<Rightarrow> (w\<lparr>clock := now, timer := None, app := st\<rparr>)
           | (st, Some p) \<Rightarrow> (w\<lparr>clock := now, timer := None, inflight := inflight w @ [p],
                               sent := sent w @ [body p], app := st\<rparr>))"
    by (rule step_Timeout)
  from assms(1) t have "input = text' (app w)" "prompt = systemPrompt (app w)"
    by (simp_all add: run_reachable_timer)
  with assms(3) w' show ?thesis
    by (simp add: fetchSuggestions_call_def request_body_def ws_request_body_def)
qed

theorem request_built_from_current_text_witness:
  "\<exists>w w'. run [(10, TextChange (js_of ''a''))] (mount 0) = Some w \<and>
      step (110, Timeout) w = Some w' \<and>
      sent w' = sent w @ [[(''text'', JString (text' (app w))),
                              (''system_prompt'', JString (systemPrompt (app w)))]] \<and>
      text' (app w) = js_of ''a'' \<and> systemPrompt (app w) = defaultSystemPrompt"
proof -
  obtain w where w: "run [(10, TextChange (js_of ''a''))] (mount 0) = Some w"
    by (simp add: eval_defs)
  obtain w' where w': "step (110, Timeout) w = Some w'"
    using w by (auto simp: eval_defs)
  have a: "text' (app w) = js_of ''a''" "systemPrompt (app w) = defaultSystemPrompt"
    using w by (auto simp: eval_defs)
  then have h: "trim (text' (app w)) \<noteq> []"
    by (simp add: trim_def js_of_def is_ws_def)
  from request_built_from_current_text [OF w w' h] w w' a show ?thesis by blast
qed






end
